theory Spec2Isabelle
  imports Complex_Main
begin

section \<open>Data model (src/types.ts)\<close>

text \<open>
  JavaScript numbers are idealised: frame counts, delays and durations are integers
  (the generation schema declares them INTEGER), coordinates and canvas dimensions are
  reals. An optional field is an \<open>option\<close>; a string is falsy exactly when it is
  absent or empty.
\<close>

datatype SceneType = Intro | Bullet_point | Quote | Outro | Tech_diagram

datatype NodeType = Database | Server | Client | Code | Lock | Queue | Cloud | Firewall

datatype ActionType = Packet | Highlight | Show_label | Pulse

record DiagramNode =
  n_id :: string
  n_type :: NodeType
  n_label :: string
  n_x :: real
  n_y :: real
  n_color :: "string option"

record DiagramEdge =
  e_fromId :: string
  e_toId :: string
  e_label :: "string option"
  e_color :: "string option"

record DiagramAction =
  a_type :: ActionType
  a_startDelay :: int
  a_duration :: int
  a_fromId :: "string option"
  a_toId :: "string option"
  a_targetId :: "string option"
  a_label :: "string option"
  a_color :: "string option"

text \<open>
  The three arrays are declared mandatory in types.ts, but both renderers and both
  post-processing steps guard against their absence, so the model keeps them optional:
  \<open>None\<close> is an undefined property. A property holding \<open>null\<close> is not modelled.
\<close>

record DiagramConfig =
  nodes :: "DiagramNode list option"
  edges :: "DiagramEdge list option"
  actions :: "DiagramAction list option"

record SceneData =
  title :: string
  subtitle :: string
  backgroundColor :: string
  textColor :: string
  durationInFrames :: int
  stype :: SceneType
  diagramConfig :: "DiagramConfig option"

record VideoConfig =
  topic :: string
  musicMood :: string
  totalDuration :: int
  scenes :: "SceneData list option"
  vc_width :: real
  vc_height :: real
  vc_fps :: real

text \<open>What \<open>useVideoConfig()\<close> hands to a component.\<close>

record Canvas =
  width :: real
  height :: real
  fps :: real

section \<open>The animation library\<close>

text \<open>
  \<open>spring\<close> and \<open>interpolate\<close> are imported from the remotion package; their code is
  not part of the repository. The renderers are therefore parameterised by the two
  functions. Both are pure functions of their arguments in the library, which is what
  passing them as HOL functions expresses.
\<close>

record SpringConfig =
  stiffness :: "real option"
  damping :: "real option"

record remotion =
  spring :: "int \<Rightarrow> real \<Rightarrow> SpringConfig \<Rightarrow> real"
  interpolate :: "real \<Rightarrow> real list \<Rightarrow> real list \<Rightarrow> real"

text \<open>
  Modelled from the spec: the contract of the library's \<open>interpolate\<close> on the unit
  input range, which is not under src/. Spec section 4.3 calls it \<open>lerp\<close>: linear
  interpolation of a progress value between the two output values.
\<close>

definition linear_on_unit :: "remotion \<Rightarrow> bool" where
  "linear_on_unit lib = (\<forall>p a b. interpolate lib p [0, 1] [a, b] = a + p * (b - a))"

text \<open>
  A stand-in library for concrete evaluation. Its spring is at rest (0) up to elapsed
  frame 0 and settled (1) afterwards, the boundary behaviour spec section 4.2 gives; its
  interpolation is linear between two output values and the identity otherwise.
\<close>

definition lerp :: "real \<Rightarrow> real list \<Rightarrow> real list \<Rightarrow> real" where
  "lerp p ins outs =
     (case outs of [a, b] \<Rightarrow> a + p * (b - a) | _ \<Rightarrow> p)"

definition step_lib :: remotion where
  "step_lib = \<lparr>spring = (\<lambda>f r c. if f \<le> 0 then 0 else 1), interpolate = lerp\<rparr>"

section \<open>JavaScript helpers\<close>

definition truthy :: "string option \<Rightarrow> bool" where
  "truthy s = (case s of None \<Rightarrow> False | Some v \<Rightarrow> v \<noteq> [])"

text \<open>\<open>a || b\<close> on an optional string and a default.\<close>

definition or_else :: "string option \<Rightarrow> string \<Rightarrow> string" where
  "or_else s d = (if truthy s then the s else d)"

text \<open>\<open>xs || []\<close> and the destructuring default \<open>xs = []\<close> on an optional array.\<close>

definition or_empty :: "'a list option \<Rightarrow> 'a list" where
  "or_empty xs = (case xs of None \<Rightarrow> [] | Some v \<Rightarrow> v)"

text \<open>\<open>a % b\<close> on integers: the sign follows the dividend.\<close>

definition js_rem :: "int \<Rightarrow> int \<Rightarrow> int" where
  "js_rem a b = sgn a * (\<bar>a\<bar> mod \<bar>b\<bar>)"

definition toPx :: "real \<Rightarrow> real \<Rightarrow> real" where
  "toPx pct dimension = (pct / 100) * dimension"

text \<open>
  \<open>Math.min(Math.max((frame - startDelay) / duration, 0), 1)\<close>. A zero duration makes
  the quotient NaN (0/0, result \<open>None\<close>) or an infinity, which the clamp maps to 1 or 0.
\<close>

definition progress :: "int \<Rightarrow> int \<Rightarrow> int \<Rightarrow> real option" where
  "progress frame startDelay duration =
     (if duration = 0 then
        (if frame - startDelay = 0 then None
         else if 0 < frame - startDelay then Some 1 else Some 0)
      else Some (min (max (real_of_int (frame - startDelay) / real_of_int duration) 0) 1))"

definition find_node :: "DiagramNode list \<Rightarrow> string \<Rightarrow> DiagramNode option" where
  "find_node ns ident = find (\<lambda>n. n_id n = ident) ns"

section \<open>Render descriptions\<close>

record EdgeRender =
  er_x1 :: real
  er_y1 :: real
  er_x2 :: real
  er_y2 :: real
  er_opacity :: real
  er_stroke :: string
  er_label :: "(string \<times> real \<times> real) option"

record NodeRender =
  nr_key :: string
  nr_left :: real
  nr_top :: real
  nr_scale :: real
  nr_glow :: bool
  nr_color :: string
  nr_round :: bool

text \<open>A coordinate is \<open>None\<close> where JavaScript computes NaN.\<close>

datatype EffectRender =
    PacketRender "real option" "real option" string "string option"
  | LabelRender real real real string "string option"

record DiagramRender =
  dr_background :: string
  dr_gridOffset :: "int option"
  dr_title :: string
  dr_subtitle :: string
  dr_textColor :: string
  dr_edges :: "EdgeRender option list"
  dr_nodes :: "NodeRender list"
  dr_effects :: "EffectRender option list"

record StandardRender =
  sr_background :: string
  sr_color :: string
  sr_ring :: "(real \<times> real) option"
  sr_opacity :: real
  sr_translateY :: real
  sr_quoteGlyphs :: bool
  sr_fontSize :: nat
  sr_title :: string
  sr_subtitle :: string
  sr_progressWidth :: "real option"

datatype SceneRender = Null | Standard StandardRender | Diagram DiagramRender

section \<open>TechScene, first variant (src/components/RemotionVideo/Composition.tsx, lines 58-316)\<close>

definition edgeA ::
  "remotion \<Rightarrow> SceneData \<Rightarrow> Canvas \<Rightarrow> DiagramNode list \<Rightarrow> int \<Rightarrow> nat \<Rightarrow> DiagramEdge
     \<Rightarrow> EdgeRender option" where
  "edgeA lib data cv ns frame i edge =
     (case find_node ns (e_fromId edge) of
        None \<Rightarrow> None
      | Some from_n \<Rightarrow>
          (case find_node ns (e_toId edge) of
             None \<Rightarrow> None
           | Some to_n \<Rightarrow>
               (let x1 = toPx (n_x from_n) (width cv);
                    y1 = toPx (n_y from_n) (height cv);
                    x2 = toPx (n_x to_n) (width cv);
                    y2 = toPx (n_y to_n) (height cv);
                    lineProgress = spring lib (frame - int i * 5) (fps cv)
                                     \<lparr>stiffness = None, damping = Some 200\<rparr>
                in Some \<lparr>er_x1 = x1, er_y1 = y1, er_x2 = x2, er_y2 = y2,
                         er_opacity = interpolate lib lineProgress [0, 1] [0, 0.5],
                         er_stroke = or_else (e_color edge) (textColor data),
                         er_label = (if truthy (e_label edge)
                                     then Some (the (e_label edge), (x1 + x2) / 2, (y1 + y2) / 2 - 10)
                                     else None)\<rparr>)))"

definition activeHighlight :: "DiagramAction list \<Rightarrow> DiagramNode \<Rightarrow> int \<Rightarrow> DiagramAction option" where
  "activeHighlight acts node frame =
     find (\<lambda>a. a_type a = Highlight \<and> a_targetId a = Some (n_id node) \<and>
                a_startDelay a \<le> frame \<and> frame < a_startDelay a + a_duration a) acts"

definition entranceA :: "remotion \<Rightarrow> Canvas \<Rightarrow> int \<Rightarrow> nat \<Rightarrow> real" where
  "entranceA lib cv frame i =
     interpolate lib
       (spring lib (frame - int i * 10) (fps cv) \<lparr>stiffness = Some 200, damping = Some 15\<rparr>)
       [0, 1] [0, 1]"

definition nodeA ::
  "remotion \<Rightarrow> SceneData \<Rightarrow> Canvas \<Rightarrow> DiagramAction list \<Rightarrow> int \<Rightarrow> nat \<Rightarrow> DiagramNode
     \<Rightarrow> NodeRender" where
  "nodeA lib data cv acts frame i node =
     (let hl = (activeHighlight acts node frame \<noteq> None);
          highlightScale = (if hl then 1.2 else 1.0);
          finalScale = entranceA lib cv frame i * highlightScale
      in \<lparr>nr_key = n_id node,
          nr_left = toPx (n_x node) (width cv),
          nr_top = toPx (n_y node) (height cv),
          nr_scale = finalScale,
          nr_glow = hl,
          nr_color = or_else (n_color node) (textColor data),
          nr_round = (n_type node = Client)\<rparr>)"

definition actionA ::
  "remotion \<Rightarrow> Canvas \<Rightarrow> DiagramNode list \<Rightarrow> int \<Rightarrow> DiagramAction \<Rightarrow> EffectRender option" where
  "actionA lib cv ns frame action =
     (if frame < a_startDelay action then None
      else if frame > a_startDelay action + a_duration action \<and> a_type action = Packet then None
      else if a_type action = Packet \<and> truthy (a_fromId action) \<and> truthy (a_toId action) then
        (case find_node ns (the (a_fromId action)) of
           None \<Rightarrow> None
         | Some from_n \<Rightarrow>
             (case find_node ns (the (a_toId action)) of
                None \<Rightarrow> None
              | Some to_n \<Rightarrow>
                  (let p = progress frame (a_startDelay action) (a_duration action);
                       startX = toPx (n_x from_n) (width cv);
                       startY = toPx (n_y from_n) (height cv);
                       endX = toPx (n_x to_n) (width cv);
                       endY = toPx (n_y to_n) (height cv);
                       curX = map_option (\<lambda>q. interpolate lib q [0, 1] [startX, endX]) p;
                       curY = map_option (\<lambda>q. interpolate lib q [0, 1] [startY, endY]) p
                   in Some (PacketRender curX curY
                              (or_else (a_color action) ''#ffffff'')
                              (Some (or_else (a_label action) ''DATA''))))))
      else if a_type action = Show_label \<and> truthy (a_targetId action) then
        (case find_node ns (the (a_targetId action)) of
           None \<Rightarrow> None
         | Some target \<Rightarrow>
             (let baseSize = min (width cv) (height cv) * 0.06;
                  tx = toPx (n_x target) (width cv);
                  ty = toPx (n_y target) (height cv);
                  labelPop = spring lib (frame - a_startDelay action) (fps cv)
                               \<lparr>stiffness = Some 150, damping = None\<rparr>
              in Some (LabelRender (tx + baseSize) (ty - baseSize) labelPop
                         (or_else (a_color action) ''#10B981'') (a_label action))))
      else None)"

definition TechSceneA :: "remotion \<Rightarrow> Canvas \<Rightarrow> int \<Rightarrow> SceneData \<Rightarrow> SceneRender" where
  "TechSceneA lib cv frame data =
     (case diagramConfig data of
        None \<Rightarrow> Null
      | Some cfg \<Rightarrow>
          (let ns = or_empty (nodes cfg);
               es = or_empty (edges cfg);
               acts = or_empty (actions cfg)
           in Diagram
                \<lparr>dr_background = backgroundColor data,
                 dr_gridOffset = None,
                 dr_title = title data,
                 dr_subtitle = subtitle data,
                 dr_textColor = textColor data,
                 dr_edges = map (\<lambda>(i, e). edgeA lib data cv ns frame i e) (enumerate 0 es),
                 dr_nodes = map (\<lambda>(i, n). nodeA lib data cv acts frame i n) (enumerate 0 ns),
                 dr_effects = map (actionA lib cv ns frame) acts\<rparr>))"

section \<open>TechScene, second variant (src/unnamed/part_000, lines 21-327)\<close>

definition edgeB ::
  "remotion \<Rightarrow> SceneData \<Rightarrow> Canvas \<Rightarrow> DiagramNode list \<Rightarrow> int \<Rightarrow> nat \<Rightarrow> DiagramEdge
     \<Rightarrow> EdgeRender option" where
  "edgeB lib data cv ns frame i edge =
     (case find_node ns (e_fromId edge) of
        None \<Rightarrow> None
      | Some from_n \<Rightarrow>
          (case find_node ns (e_toId edge) of
             None \<Rightarrow> None
           | Some to_n \<Rightarrow>
               (let x1 = toPx (n_x from_n) (width cv);
                    y1 = toPx (n_y from_n) (height cv);
                    x2 = toPx (n_x to_n) (width cv);
                    y2 = toPx (n_y to_n) (height cv);
                    prog = spring lib (frame - int i * 3) (fps cv)
                             \<lparr>stiffness = Some 50, damping = None\<rparr>
                in Some \<lparr>er_x1 = x1, er_y1 = y1, er_x2 = x2, er_y2 = y2,
                         er_opacity = interpolate lib prog [0, 1] [0, 0.4],
                         er_stroke = or_else (e_color edge) (textColor data),
                         er_label = (if truthy (e_label edge)
                                     then Some (the (e_label edge), (x1 + x2) / 2, (y1 + y2) / 2 - 15)
                                     else None)\<rparr>)))"

definition activeAction :: "DiagramAction list \<Rightarrow> DiagramNode \<Rightarrow> int \<Rightarrow> DiagramAction option" where
  "activeAction acts node frame =
     find (\<lambda>a. (a_type a = Highlight \<or> a_type a = Pulse) \<and> a_targetId a = Some (n_id node) \<and>
                a_startDelay a \<le> frame \<and> frame < a_startDelay a + a_duration a) acts"

definition entranceB :: "remotion \<Rightarrow> Canvas \<Rightarrow> int \<Rightarrow> nat \<Rightarrow> real" where
  "entranceB lib cv frame i =
     interpolate lib
       (spring lib (frame - int i * 5) (fps cv) \<lparr>stiffness = Some 100, damping = Some 12\<rparr>)
       [0, 1] [0, 1]"

definition pulseScale :: "DiagramAction option \<Rightarrow> int \<Rightarrow> real" where
  "pulseScale act frame =
     (case act of
        None \<Rightarrow> 0
      | Some a \<Rightarrow>
          (if a_type a = Pulse
           then sin (real_of_int (frame - a_startDelay a) * 0.5) * 0.1
           else 0))"

definition nodeB ::
  "remotion \<Rightarrow> Canvas \<Rightarrow> DiagramAction list \<Rightarrow> int \<Rightarrow> nat \<Rightarrow> DiagramNode \<Rightarrow> NodeRender" where
  "nodeB lib cv acts frame i node =
     (let act = activeAction acts node frame;
          scaleVal = entranceB lib cv frame i + (if act \<noteq> None then 0.15 else 0)
                       + pulseScale act frame
      in \<lparr>nr_key = n_id node,
          nr_left = toPx (n_x node) (width cv),
          nr_top = toPx (n_y node) (height cv),
          nr_scale = scaleVal,
          nr_glow = (act \<noteq> None),
          nr_color = or_else (n_color node) ''#3b82f6'',
          nr_round = (n_type node = Client)\<rparr>)"

definition packetB ::
  "remotion \<Rightarrow> Canvas \<Rightarrow> DiagramNode list \<Rightarrow> int \<Rightarrow> DiagramAction \<Rightarrow> EffectRender option" where
  "packetB lib cv ns frame action =
     (if a_type action \<noteq> Packet \<or> \<not> truthy (a_fromId action) \<or> \<not> truthy (a_toId action)
      then None
      else if frame < a_startDelay action then None
      else if frame > a_startDelay action + a_duration action then None
      else
        (case find_node ns (the (a_fromId action)) of
           None \<Rightarrow> None
         | Some from_n \<Rightarrow>
             (case find_node ns (the (a_toId action)) of
                None \<Rightarrow> None
              | Some to_n \<Rightarrow>
                  (let p = progress frame (a_startDelay action) (a_duration action);
                       startX = toPx (n_x from_n) (width cv);
                       startY = toPx (n_y from_n) (height cv);
                       endX = toPx (n_x to_n) (width cv);
                       endY = toPx (n_y to_n) (height cv);
                       curX = map_option (\<lambda>q. interpolate lib q [0, 1] [startX, endX]) p;
                       curY = map_option (\<lambda>q. interpolate lib q [0, 1] [startY, endY]) p
                   in Some (PacketRender curX curY
                              (or_else (a_color action) ''#fff'')
                              (if truthy (a_label action) then a_label action else None))))))"

definition labelB ::
  "remotion \<Rightarrow> Canvas \<Rightarrow> DiagramNode list \<Rightarrow> int \<Rightarrow> DiagramAction \<Rightarrow> EffectRender option" where
  "labelB lib cv ns frame action =
     (if a_type action \<noteq> Show_label \<or> \<not> truthy (a_targetId action) then None
      else if frame < a_startDelay action then None
      else
        (case find_node ns (the (a_targetId action)) of
           None \<Rightarrow> None
         | Some target \<Rightarrow>
             (let baseSize = min (width cv) (height cv) * 0.06;
                  pop = spring lib (frame - a_startDelay action) (fps cv)
                          \<lparr>stiffness = Some 200, damping = None\<rparr>;
                  tx = toPx (n_x target) (width cv);
                  ty = toPx (n_y target) (height cv)
              in Some (LabelRender tx (ty - baseSize * 2) pop
                         (or_else (a_color action) ''#10b981'') (a_label action)))))"

text \<open>
  The second variant maps over the actions twice, first for the packets and then for the
  popup labels; the effects of the render are the two lists in that order.
\<close>

definition TechSceneB :: "remotion \<Rightarrow> Canvas \<Rightarrow> int \<Rightarrow> SceneData \<Rightarrow> SceneRender" where
  "TechSceneB lib cv frame data =
     (case diagramConfig data of
        None \<Rightarrow> Null
      | Some cfg \<Rightarrow>
          (let ns = or_empty (nodes cfg);
               es = or_empty (edges cfg);
               acts = or_empty (actions cfg)
           in Diagram
                \<lparr>dr_background = or_else (Some (backgroundColor data)) ''#0f172a'',
                 dr_gridOffset = Some (js_rem frame 80),
                 dr_title = title data,
                 dr_subtitle = subtitle data,
                 dr_textColor = textColor data,
                 dr_edges = map (\<lambda>(i, e). edgeB lib data cv ns frame i e) (enumerate 0 es),
                 dr_nodes = map (\<lambda>(i, n). nodeB lib cv acts frame i n) (enumerate 0 ns),
                 dr_effects = map (packetB lib cv ns frame) acts @ map (labelB lib cv ns frame) acts\<rparr>))"

section \<open>Scene (src/components/RemotionVideo/Scene.tsx)\<close>

text \<open>
  The library's \<open>interpolate\<close> throws unless its input range is strictly increasing.
  The calls on the range \<open>[0, 1]\<close> in the diagram renderers always pass that check;
  the opacity trapezoid of \<open>Scene\<close>, on \<open>[0, 10, d - 10, d]\<close>, passes it only for a
  scene of more than 20 frames. A throw is the value \<open>Inl RangeError\<close>.
\<close>

datatype error = RangeError

fun strictly_increasing :: "real list \<Rightarrow> bool" where
  "strictly_increasing (a # b # rest) = (a < b \<and> strictly_increasing (b # rest))"
| "strictly_increasing _ = True"

text \<open>
  \<open>Scene\<close> imports \<open>TechScene\<close> from a sibling module; the repository holds two versions
  of it, so the renderer in use is the argument \<open>tech\<close>. The progress bar's width is
  \<open>None\<close> where the division by a zero duration leaves no finite number.
\<close>

definition Scene ::
  "remotion \<Rightarrow> (remotion \<Rightarrow> Canvas \<Rightarrow> int \<Rightarrow> SceneData \<Rightarrow> SceneRender) \<Rightarrow> Canvas \<Rightarrow> int
     \<Rightarrow> SceneData \<Rightarrow> error + SceneRender" where
  "Scene lib tech cv frame data =
     (if stype data = Tech_diagram then Inr (tech lib cv frame data)
      else if \<not> strictly_increasing
                 [0, 10, real_of_int (durationInFrames data - 10),
                  real_of_int (durationInFrames data)]
      then Inl RangeError
      else
        (let entrance = spring lib frame (fps cv) \<lparr>stiffness = None, damping = Some 200\<rparr>;
             textTranslateY = interpolate lib entrance [0, 1] [100, 0];
             opacity = interpolate lib (real_of_int frame)
                         [0, 10, real_of_int (durationInFrames data - 10),
                          real_of_int (durationInFrames data)]
                         [0, 1, 1, 0];
             isQuote = (stype data = Quote);
             isIntro = (stype data = Intro)
         in Inr (Standard
              \<lparr>sr_background = backgroundColor data,
               sr_color = textColor data,
               sr_ring = (if isIntro then Some (width cv * 1.5, entrance) else None),
               sr_opacity = opacity,
               sr_translateY = textTranslateY,
               sr_quoteGlyphs = isQuote,
               sr_fontSize = (if isIntro then 80 else if isQuote then 50 else 70),
               sr_title = title data,
               sr_subtitle = subtitle data,
               sr_progressWidth =
                 (if durationInFrames data = 0 then None
                  else Some (real_of_int frame / real_of_int (durationInFrames data) * 100))\<rparr>)))"

section \<open>MainComposition (src/components/RemotionVideo/Composition.tsx, lines 11-43)\<close>

record SequenceProps =
  seq_key :: nat
  seq_from :: int
  seq_durationInFrames :: int
  seq_child :: SceneData

text \<open>
  The callback of \<open>data.scenes.map\<close>. It reads and advances the local variable
  \<open>currentFrame\<close>, which is threaded through the recursion here.
\<close>

fun sequences :: "int \<Rightarrow> nat \<Rightarrow> SceneData list \<Rightarrow> SequenceProps list" where
  "sequences currentFrame index [] = []"
| "sequences currentFrame index (scene # rest) =
     \<lparr>seq_key = index, seq_from = currentFrame,
      seq_durationInFrames = durationInFrames scene, seq_child = scene\<rparr>
     # sequences (currentFrame + durationInFrames scene) (Suc index) rest"

datatype CompositionRender = NoSceneData | Timeline "SequenceProps list"

definition MainComposition :: "VideoConfig option \<Rightarrow> CompositionRender" where
  "MainComposition data =
     (case data of
        None \<Rightarrow> NoSceneData
      | Some d \<Rightarrow>
          (case scenes d of
             None \<Rightarrow> NoSceneData
           | Some ss \<Rightarrow> Timeline (sequences 0 0 ss)))"

text \<open>
  Modelled from the spec: the \<open>Sequence\<close> component belongs to the remotion package and
  is not under src/. Spec section 4.1: scene \<open>i\<close> occupies the half-open interval from
  its offset to its offset plus its duration, and its local frame is the global frame
  minus the offset. \<open>localFrame\<close> is \<open>None\<close> where the sequence shows nothing.
\<close>

definition localFrame :: "SequenceProps \<Rightarrow> int \<Rightarrow> int option" where
  "localFrame s globalFrame =
     (if seq_from s \<le> globalFrame \<and> globalFrame < seq_from s + seq_durationInFrames s
      then Some (globalFrame - seq_from s) else None)"

text \<open>The scenes showing at a global frame, each with its index and local frame.\<close>

definition showing :: "SequenceProps list \<Rightarrow> int \<Rightarrow> (nat \<times> int) list" where
  "showing seqs globalFrame =
     concat (map (\<lambda>s. case localFrame s globalFrame of
                         None \<Rightarrow> []
                       | Some l \<Rightarrow> [(seq_key s, l)]) seqs)"

definition locate :: "SceneData list \<Rightarrow> int \<Rightarrow> (nat \<times> int) list" where
  "locate ss globalFrame = showing (sequences 0 0 ss) globalFrame"

section \<open>The host (src/App.tsx, lines 140-146)\<close>

text \<open>
  Modelled from the spec: the player that owns the frame clock belongs to the remotion
  packages and is not under src/. \<open>App\<close> hands it the composition, the video's
  \<open>totalDuration\<close> as its length and the video's width, height and frame rate as the
  canvas. Spec sections 4.1 and 7: a frame before zero or beyond the end is clamped to
  the nearest valid frame, not an error.
\<close>

definition clamp_frame :: "int \<Rightarrow> int \<Rightarrow> int" where
  "clamp_frame len globalFrame = max 0 (min (len - 1) globalFrame)"

text \<open>The sequences that show at a frame, each with its local frame.\<close>

definition visible :: "SequenceProps list \<Rightarrow> int \<Rightarrow> (SequenceProps \<times> int) list" where
  "visible seqs frame =
     concat (map (\<lambda>s. case localFrame s frame of
                         None \<Rightarrow> []
                       | Some l \<Rightarrow> [(s, l)]) seqs)"

text \<open>A throw in any scene that shows aborts the render of the frame.\<close>

fun collect :: "(error + SceneRender) list \<Rightarrow> error + SceneRender list" where
  "collect [] = Inr []"
| "collect (Inl e # rest) = Inl e"
| "collect (Inr r # rest) = (case collect rest of Inl e \<Rightarrow> Inl e | Inr rs \<Rightarrow> Inr (r # rs))"

text \<open>
  The render entry point: the scenes the composition shows at the frame the host makes
  of the requested one; \<open>None\<close> is the composition's notice that there are no scenes.
\<close>

definition render ::
  "remotion \<Rightarrow> (remotion \<Rightarrow> Canvas \<Rightarrow> int \<Rightarrow> SceneData \<Rightarrow> SceneRender) \<Rightarrow> VideoConfig
     \<Rightarrow> int \<Rightarrow> (error + SceneRender list) option" where
  "render lib tech vd globalFrame =
     (let frame = clamp_frame (totalDuration vd) globalFrame;
          cv = \<lparr>width = vc_width vd, height = vc_height vd, fps = vc_fps vd\<rparr>
      in case MainComposition (Some vd) of
           NoSceneData \<Rightarrow> None
         | Timeline seqs \<Rightarrow>
             Some (collect (map (\<lambda>(s, l). Scene lib tech cv l (seq_child s))
                                (visible seqs frame))))"

section \<open>Post-processing of generated scenes\<close>




section \<open>Reading a render\<close>

definition rendered_edges :: "SceneRender \<Rightarrow> EdgeRender option list" where
  "rendered_edges r = (case r of Diagram d \<Rightarrow> dr_edges d | _ \<Rightarrow> [])"

text \<open>Where an effect is drawn, when it is drawn at finite coordinates.\<close>

fun position :: "EffectRender option \<Rightarrow> (real \<times> real) option" where
  "position (Some (PacketRender (Some px) (Some py) c l)) = Some (px, py)"
| "position (Some (LabelRender px py s c l)) = Some (px, py)"
| "position _ = None"

text \<open>An optional node reference resolves when a node of the diagram carries that id.\<close>

definition resolves :: "DiagramNode list \<Rightarrow> string option \<Rightarrow> bool" where
  "resolves ns r = (case r of None \<Rightarrow> False | Some ident \<Rightarrow> ident \<in> set (map n_id ns))"

section \<open>Example data\<close>

definition demo_canvas :: Canvas where
  "demo_canvas = \<lparr>width = 1920, height = 1080, fps = 30\<rparr>"

definition client_node :: DiagramNode where
  "client_node = \<lparr>n_id = ''client'', n_type = Client, n_label = ''Client A'',
                   n_x = 50, n_y = 15, n_color = None\<rparr>"

definition redis_node :: DiagramNode where
  "redis_node = \<lparr>n_id = ''redis'', n_type = Database, n_label = ''Redis'',
                  n_x = 50, n_y = 50, n_color = Some ''#ef4444''\<rparr>"

definition demo_nodes :: "DiagramNode list" where
  "demo_nodes = [client_node, redis_node]"

definition setnx_packet :: DiagramAction where
  "setnx_packet = \<lparr>a_type = Packet, a_startDelay = 30, a_duration = 40,
                    a_fromId = Some ''client'', a_toId = Some ''redis'', a_targetId = None,
                    a_label = Some ''SETNX'', a_color = None\<rparr>"

definition redis_highlight :: DiagramAction where
  "redis_highlight = \<lparr>a_type = Highlight, a_startDelay = 70, a_duration = 20,
                       a_fromId = None, a_toId = None, a_targetId = Some ''redis'',
                       a_label = None, a_color = None\<rparr>"

definition redis_pulse :: DiagramAction where
  "redis_pulse = \<lparr>a_type = Pulse, a_startDelay = 70, a_duration = 20,
                   a_fromId = None, a_toId = None, a_targetId = Some ''redis'',
                   a_label = None, a_color = None\<rparr>"

definition locked_label :: DiagramAction where
  "locked_label = \<lparr>a_type = Show_label, a_startDelay = 75, a_duration = 100,
                    a_fromId = None, a_toId = None, a_targetId = Some ''redis'',
                    a_label = Some ''LOCKED'', a_color = None\<rparr>"

definition stray_edge :: DiagramEdge where
  "stray_edge = \<lparr>e_fromId = ''client'', e_toId = ''ghost'', e_label = None, e_color = None\<rparr>"

definition good_edge :: DiagramEdge where
  "good_edge = \<lparr>e_fromId = ''client'', e_toId = ''redis'', e_label = None, e_color = None\<rparr>"

definition stray_packet :: DiagramAction where
  "stray_packet = setnx_packet\<lparr>a_toId := Some ''ghost''\<rparr>"

definition stray_label :: DiagramAction where
  "stray_label = locked_label\<lparr>a_targetId := Some ''ghost''\<rparr>"

definition stray_highlight :: DiagramAction where
  "stray_highlight = redis_highlight\<lparr>a_targetId := Some ''ghost''\<rparr>"

definition plain_scene :: "int \<Rightarrow> SceneData" where
  "plain_scene d = \<lparr>title = ''Title'', subtitle = ''Subtitle'', backgroundColor = ''#0B0F19'',
                     textColor = ''#ffffff'', durationInFrames = d, stype = Bullet_point,
                     diagramConfig = None\<rparr>"

definition diagram_scene :: "DiagramConfig option \<Rightarrow> SceneData" where
  "diagram_scene cfg = \<lparr>title = ''Lock'', subtitle = ''SETNX'', backgroundColor = ''#0B0F19'',
                         textColor = ''#ffffff'', durationInFrames = 200, stype = Tech_diagram,
                         diagramConfig = cfg\<rparr>"


definition percent_canvas :: Canvas where
  "percent_canvas = \<lparr>width = 100, height = 100, fps = 30\<rparr>"

definition intro_highlight :: DiagramAction where
  "intro_highlight = redis_highlight\<lparr>a_startDelay := 10\<rparr>"

definition intro_pulse :: DiagramAction where
  "intro_pulse = redis_pulse\<lparr>a_startDelay := 10\<rparr>"

definition stray_config :: DiagramConfig where
  "stray_config = \<lparr>nodes = Some demo_nodes, edges = Some [good_edge, stray_edge],
                    actions = Some [stray_packet, stray_label, stray_highlight]\<rparr>"




section \<open>Auxiliary facts\<close>

lemma find_node_None_iff: "find_node ns ident = None \<longleftrightarrow> ident \<notin> set (map n_id ns)"
  by (auto simp: find_node_def find_None_iff)

lemma resolves_Some: "resolves ns (Some ident) \<longleftrightarrow> find_node ns ident \<noteq> None"
  by (simp add: resolves_def find_node_None_iff)

lemma unresolved_cases:
  "\<not> resolves ns r \<Longrightarrow> \<not> truthy r \<or> find_node ns (the r) = None"
  by (cases r) (auto simp: resolves_def truthy_def find_node_None_iff)

lemma sequences_length: "length (sequences c k ss) = length ss"
  by (induction ss arbitrary: c k) auto

lemma sequences_nth:
  "i < length ss \<Longrightarrow>
     sequences c k ss ! i =
       \<lparr>seq_key = k + i,
        seq_from = c + sum_list (map durationInFrames (take i ss)),
        seq_durationInFrames = durationInFrames (ss ! i),
        seq_child = ss ! i\<rparr>"
proof (induction ss arbitrary: c k i)
  case Nil
  then show ?case by simp
next
  case (Cons s ss)
  show ?case
  proof (cases i)
    case 0
    then show ?thesis by simp
  next
    case (Suc j)
    with Cons.prems have "j < length ss" by simp
    from Cons.IH [OF this, of "c + durationInFrames s" "Suc k"] Suc
    show ?thesis by (simp add: add.assoc)
  qed
qed

lemma showing_Nil: "showing [] g = []"
  by (simp add: showing_def)

lemma showing_Cons:
  "showing (s # seqs) g =
     (case localFrame s g of None \<Rightarrow> [] | Some l \<Rightarrow> [(seq_key s, l)]) @ showing seqs g"
  by (simp add: showing_def)

lemma showing_before:
  "\<forall>s\<in>set ss. 0 \<le> durationInFrames s \<Longrightarrow> g < c \<Longrightarrow> showing (sequences c k ss) g = []"
proof (induction ss arbitrary: c k)
  case Nil
  then show ?case by (simp add: showing_Nil)
next
  case (Cons s ss)
  have "g < c + durationInFrames s" using Cons.prems by simp
  with Cons show ?case by (simp add: showing_Cons localFrame_def)
qed



lemma find_drop_unmatched: "\<not> P a \<Longrightarrow> find P (xs @ a # ys) = find P (xs @ ys)"
  by (induction xs) auto

lemma step_lib_linear: "linear_on_unit step_lib"
  by (simp add: linear_on_unit_def step_lib_def lerp_def)

lemma find_first: "P a \<Longrightarrow> \<forall>c\<in>set pre. \<not> P c \<Longrightarrow> find P (pre @ a # post) = Some a"
  by (induction pre) auto

lemma visible_Nil: "visible [] g = []"
  by (simp add: visible_def)

lemma visible_Cons:
  "visible (s # seqs) g =
     (case localFrame s g of None \<Rightarrow> [] | Some l \<Rightarrow> [(s, l)]) @ visible seqs g"
  by (simp add: visible_def)

lemma visible_append: "visible (xs @ ys) g = visible xs g @ visible ys g"
  by (simp add: visible_def)

lemma showing_visible: "showing seqs g = map (\<lambda>(s, l). (seq_key s, l)) (visible seqs g)"
  by (induction seqs) (auto simp: showing_def visible_def split: option.splits)

lemma visible_before:
  "\<forall>s\<in>set ss. 0 \<le> durationInFrames s \<Longrightarrow> g < c \<Longrightarrow> visible (sequences c k ss) g = []"
proof (induction ss arbitrary: c k)
  case Nil
  then show ?case by (simp add: visible_Nil)
next
  case (Cons s ss)
  have "g < c + durationInFrames s" using Cons.prems by simp
  with Cons show ?case by (simp add: visible_Cons localFrame_def)
qed

lemma visible_after:
  "\<forall>s\<in>set ss. 0 \<le> durationInFrames s \<Longrightarrow> c + sum_list (map durationInFrames ss) \<le> g
     \<Longrightarrow> visible (sequences c k ss) g = []"
proof (induction ss arbitrary: c k)
  case Nil
  then show ?case by (simp add: visible_Nil)
next
  case (Cons s ss)
  have nn: "0 \<le> sum_list (map durationInFrames ss)"
    using Cons.prems(1) by (intro sum_list_nonneg) auto
  have "c + durationInFrames s \<le> g" using Cons.prems nn by simp
  moreover have "(c + durationInFrames s) + sum_list (map durationInFrames ss) \<le> g"
    using Cons.prems by (simp add: add.assoc)
  ultimately show ?case using Cons by (simp add: visible_Cons localFrame_def)
qed

lemma sequences_snoc:
  "sequences c k (xs @ [s]) =
     sequences c k xs @
       [\<lparr>seq_key = k + length xs, seq_from = c + sum_list (map durationInFrames xs),
         seq_durationInFrames = durationInFrames s, seq_child = s\<rparr>]"
  by (induction xs arbitrary: c k) (auto simp: add.assoc)

section \<open>The timeline\<close>

text \<open>
  C2. With positive scene durations, the composition gives scene \<open>i\<close> a sequence that
  starts at the sum of the durations before it and lasts its own duration, so the scene
  shows exactly on the half-open interval from its offset to its offset plus its
  duration, at local frame global frame minus offset. Hence, in a list of at least three
  scenes with durations \<open>d0\<close>, \<open>d1\<close>, ..., the global frame \<open>d0 + d1\<close> shows scene 2 at local
  frame 0 and nothing else, and the global frame \<open>d0 + d1 - 1\<close> shows scene 1 at local
  frame \<open>d1 - 1\<close> and nothing else.
\<close>

theorem timeline_offsets:
  assumes pos: "\<forall>s\<in>set ss. 0 < durationInFrames s"
  shows "(\<forall>i<length ss.
            seq_from (sequences 0 0 ss ! i) = sum_list (map durationInFrames (take i ss)) \<and>
            seq_durationInFrames (sequences 0 0 ss ! i) = durationInFrames (ss ! i) \<and>
            seq_child (sequences 0 0 ss ! i) = ss ! i \<and>
            (\<forall>g l. localFrame (sequences 0 0 ss ! i) g = Some l \<longleftrightarrow>
               sum_list (map durationInFrames (take i ss)) \<le> g \<and>
               g < sum_list (map durationInFrames (take i ss)) + durationInFrames (ss ! i) \<and>
               l = g - sum_list (map durationInFrames (take i ss)))) \<and>
         (\<forall>s0 s1 s2 rest. ss = s0 # s1 # s2 # rest \<longrightarrow>
            locate ss (durationInFrames s0 + durationInFrames s1) = [(2, 0)] \<and>
            locate ss (durationInFrames s0 + durationInFrames s1 - 1)
              = [(1, durationInFrames s1 - 1)])"
proof (intro conjI allI impI)
  fix i assume i: "i < length ss"
  note nth = sequences_nth [OF i, of 0 0]
  show "seq_from (sequences 0 0 ss ! i) = sum_list (map durationInFrames (take i ss))"
    by (simp add: nth)
  show "seq_durationInFrames (sequences 0 0 ss ! i) = durationInFrames (ss ! i)"
    by (simp add: nth)
  show "seq_child (sequences 0 0 ss ! i) = ss ! i"
    by (simp add: nth)
  fix g l
  show "localFrame (sequences 0 0 ss ! i) g = Some l \<longleftrightarrow>
               sum_list (map durationInFrames (take i ss)) \<le> g \<and>
               g < sum_list (map durationInFrames (take i ss)) + durationInFrames (ss ! i) \<and>
               l = g - sum_list (map durationInFrames (take i ss))"
    by (auto simp: nth localFrame_def)
next
  fix s0 s1 s2 rest assume ss: "ss = s0 # s1 # s2 # rest"
  have p0: "0 < durationInFrames s0" and p1: "0 < durationInFrames s1"
    and p2: "0 < durationInFrames s2" and pr: "\<forall>s\<in>set rest. 0 \<le> durationInFrames s"
    using pos ss by (auto intro: less_imp_le)
  let ?g = "durationInFrames s0 + durationInFrames s1"
  have r1: "showing (sequences (?g + durationInFrames s2) 3 rest) ?g = []"
    using showing_before [OF pr, of ?g "?g + durationInFrames s2" 3] p2 by simp
  have r2: "showing (sequences (?g + durationInFrames s2) 3 rest) (?g - 1) = []"
    using showing_before [OF pr, of "?g - 1" "?g + durationInFrames s2" 3] p2 by simp
  show "locate ss ?g = [(2, 0)]"
    using p0 p1 p2 r1
    by (simp add: locate_def ss showing_Cons localFrame_def numeral_3_eq_3 numeral_2_eq_2)
  show "locate ss (?g - 1) = [(1, durationInFrames s1 - 1)]"
    using p0 p1 p2 r2
    by (simp add: locate_def ss showing_Cons localFrame_def numeral_3_eq_3)
qed

theorem timeline_offsets_witness:
  "locate [plain_scene 60, plain_scene 90, plain_scene 120, plain_scene 30] 150 = [(2, 0)] \<and>
   locate [plain_scene 60, plain_scene 90, plain_scene 120, plain_scene 30] 149 = [(1, 89)] \<and>
   seq_from (sequences 0 0 [plain_scene 60, plain_scene 90, plain_scene 120, plain_scene 30] ! 3)
     = 270 \<and>
   localFrame (sequences 0 0 [plain_scene 60, plain_scene 90, plain_scene 120, plain_scene 30] ! 3)
     299 = Some 29"
proof -
  let ?ss = "[plain_scene 60, plain_scene 90, plain_scene 120, plain_scene 30]"
  have pos: "\<forall>s\<in>set ?ss. 0 < durationInFrames s"
    by (simp add: plain_scene_def)
  have d: "durationInFrames (plain_scene 60) = 60" "durationInFrames (plain_scene 90) = 90"
    by (simp_all add: plain_scene_def)
  note t = timeline_offsets [OF pos]
  note b = t [THEN conjunct2, rule_format, OF refl]
  have len: "3 < length ?ss" by simp
  note a = t [THEN conjunct1, rule_format, OF len]
  have t3: "sum_list (map durationInFrames (take 3 ?ss)) = 270" "durationInFrames (?ss ! 3) = 30"
    by (simp_all add: plain_scene_def numeral_3_eq_3)
  have f3: "seq_from (sequences 0 0 ?ss ! 3) = 270"
    using a [THEN conjunct1] unfolding t3 .
  have l3: "localFrame (sequences 0 0 ?ss ! 3) 299 = Some 29"
    using a [THEN conjunct2, THEN conjunct2, THEN conjunct2, THEN spec, THEN spec, of 299 29]
    unfolding t3 by simp
  from b have "locate ?ss 150 = [(2, 0)]" "locate ?ss 149 = [(1, 89)]"
    unfolding d by simp_all
  with f3 l3 show ?thesis by simp
qed

section \<open>Packets\<close>

text \<open>
  C3, as the code has it. A packet action whose two endpoint ids are present, non-empty
  and carried by nodes of the diagram is drawn exactly on the closed frame window
  \<open>startDelay \<le> localFrame \<le> startDelay + duration\<close>, in both versions of the renderer:
  it is absent before the window and at every frame strictly after
  \<open>startDelay + duration\<close>, and it is still drawn at the frame \<open>startDelay + duration\<close>
  itself. It never yields a popup label.
\<close>

theorem packet_window:
  assumes "a_type a = Packet" and "truthy (a_fromId a)" and "truthy (a_toId a)"
    and "resolves ns (a_fromId a)" and "resolves ns (a_toId a)"
  shows "(actionA lib cv ns frame a \<noteq> None \<longleftrightarrow>
            a_startDelay a \<le> frame \<and> frame \<le> a_startDelay a + a_duration a) \<and>
         (packetB lib cv ns frame a \<noteq> None \<longleftrightarrow>
            a_startDelay a \<le> frame \<and> frame \<le> a_startDelay a + a_duration a) \<and>
         labelB lib cv ns frame a = None"
proof -
  obtain f where f: "a_fromId a = Some f"
    using assms(2) by (cases "a_fromId a") (auto simp: truthy_def)
  obtain t where t: "a_toId a = Some t"
    using assms(3) by (cases "a_toId a") (auto simp: truthy_def)
  obtain nf where nf: "find_node ns f = Some nf"
    using assms(4) f by (auto simp: resolves_Some)
  obtain nt where nt: "find_node ns t = Some nt"
    using assms(5) t by (auto simp: resolves_Some)
  show ?thesis
    using assms(1,2,3) by (auto simp: actionA_def packetB_def labelB_def f t nf nt Let_def)
qed

theorem packet_window_witness:
  "actionA step_lib demo_canvas demo_nodes 29 setnx_packet = None \<and>
   actionA step_lib demo_canvas demo_nodes 30 setnx_packet \<noteq> None \<and>
   actionA step_lib demo_canvas demo_nodes 70 setnx_packet \<noteq> None \<and>
   actionA step_lib demo_canvas demo_nodes 71 setnx_packet = None \<and>
   packetB step_lib demo_canvas demo_nodes 29 setnx_packet = None \<and>
   packetB step_lib demo_canvas demo_nodes 30 setnx_packet \<noteq> None \<and>
   packetB step_lib demo_canvas demo_nodes 70 setnx_packet \<noteq> None \<and>
   packetB step_lib demo_canvas demo_nodes 71 setnx_packet = None"
proof -
  have h: "a_type setnx_packet = Packet" "truthy (a_fromId setnx_packet)"
    "truthy (a_toId setnx_packet)" "resolves demo_nodes (a_fromId setnx_packet)"
    "resolves demo_nodes (a_toId setnx_packet)"
    by (simp_all add: setnx_packet_def truthy_def resolves_def demo_nodes_def
          client_node_def redis_node_def)
  have sd: "a_startDelay setnx_packet = 30" "a_duration setnx_packet = 40"
    by (simp_all add: setnx_packet_def)
  show ?thesis
    using packet_window [OF h, of step_lib demo_canvas 29]
      packet_window [OF h, of step_lib demo_canvas 30]
      packet_window [OF h, of step_lib demo_canvas 70]
      packet_window [OF h, of step_lib demo_canvas 71]
    by (simp add: sd)
qed

text \<open>
  A half-open window fails at its right end: the packet that leaves at frame 30
  for 40 frames is drawn at frame 70, on the target node's anchor, by both versions.
\<close>

theorem packet_at_window_end:
  "packetB step_lib demo_canvas demo_nodes 70 setnx_packet
     = Some (PacketRender (Some 960) (Some 540) ''#fff'' (Some ''SETNX'')) \<and>
   actionA step_lib demo_canvas demo_nodes 70 setnx_packet
     = Some (PacketRender (Some 960) (Some 540) ''#ffffff'' (Some ''SETNX''))"
  by (simp add: packetB_def actionA_def setnx_packet_def demo_nodes_def client_node_def
        redis_node_def demo_canvas_def truthy_def find_node_def progress_def toPx_def
        step_lib_def lerp_def or_else_def)

text \<open>
  C4. Provided the library's \<open>interpolate\<close> is linear on the unit input range, a packet
  drawn inside its window, with a positive duration, sits at the linear interpolation
  between the pixel anchors of its from-node and its to-node, at the clamped progress
  \<open>(localFrame - startDelay) / duration\<close>; both versions of the renderer agree. With
  the from-node at (50, 15), the to-node at (50, 50), \<open>startDelay = 30\<close> and
  \<open>duration = 40\<close> the packet is on the anchor of (50, 15) at frame 30, on the anchor of
  (50, 50) at frame 70 and on the anchor of (50, 32.5) at frame 50.
\<close>

theorem packet_position:
  assumes lin: "linear_on_unit lib"
    and ty: "a_type a = Packet"
    and f: "a_fromId a = Some f" "f \<noteq> []" and t: "a_toId a = Some t" "t \<noteq> []"
    and nf: "find_node ns f = Some nf" and nt: "find_node ns t = Some nt"
  shows "(0 < a_duration a \<and> a_startDelay a \<le> frame \<and> frame \<le> a_startDelay a + a_duration a \<longrightarrow>
            position (actionA lib cv ns frame a)
              = Some (toPx (n_x nf) (width cv)
                        + min (max (real_of_int (frame - a_startDelay a) / real_of_int (a_duration a)) 0) 1
                          * (toPx (n_x nt) (width cv) - toPx (n_x nf) (width cv)),
                      toPx (n_y nf) (height cv)
                        + min (max (real_of_int (frame - a_startDelay a) / real_of_int (a_duration a)) 0) 1
                          * (toPx (n_y nt) (height cv) - toPx (n_y nf) (height cv))) \<and>
            position (packetB lib cv ns frame a) = position (actionA lib cv ns frame a)) \<and>
         (a_startDelay a = 30 \<and> a_duration a = 40 \<and>
          n_x nf = 50 \<and> n_y nf = 15 \<and> n_x nt = 50 \<and> n_y nt = 50 \<longrightarrow>
            position (actionA lib cv ns 30 a) = Some (toPx 50 (width cv), toPx 15 (height cv)) \<and>
            position (actionA lib cv ns 70 a) = Some (toPx 50 (width cv), toPx 50 (height cv)) \<and>
            position (actionA lib cv ns 50 a) = Some (toPx 50 (width cv), toPx 32.5 (height cv)) \<and>
            position (packetB lib cv ns 30 a) = Some (toPx 50 (width cv), toPx 15 (height cv)) \<and>
            position (packetB lib cv ns 70 a) = Some (toPx 50 (width cv), toPx 50 (height cv)) \<and>
            position (packetB lib cv ns 50 a) = Some (toPx 50 (width cv), toPx 32.5 (height cv)))"
proof -
  have L: "\<And>p u v. interpolate lib p [0, 1] [u, v] = u + p * (v - u)"
    using lin by (simp add: linear_on_unit_def)
  have tr: "truthy (a_fromId a)" "truthy (a_toId a)"
    using f t by (simp_all add: truthy_def)
  have gen: "0 < a_duration a \<Longrightarrow> a_startDelay a \<le> fr \<Longrightarrow> fr \<le> a_startDelay a + a_duration a \<Longrightarrow>
            position (actionA lib cv ns fr a)
              = Some (toPx (n_x nf) (width cv)
                        + min (max (real_of_int (fr - a_startDelay a) / real_of_int (a_duration a)) 0) 1
                          * (toPx (n_x nt) (width cv) - toPx (n_x nf) (width cv)),
                      toPx (n_y nf) (height cv)
                        + min (max (real_of_int (fr - a_startDelay a) / real_of_int (a_duration a)) 0) 1
                          * (toPx (n_y nt) (height cv) - toPx (n_y nf) (height cv))) \<and>
            position (packetB lib cv ns fr a) = position (actionA lib cv ns fr a)" for fr
    using ty tr by (simp add: actionA_def packetB_def f t nf nt Let_def progress_def L)
  show ?thesis
  proof (intro conjI impI)
    assume "0 < a_duration a \<and> a_startDelay a \<le> frame \<and> frame \<le> a_startDelay a + a_duration a"
    then show "position (actionA lib cv ns frame a)
              = Some (toPx (n_x nf) (width cv)
                        + min (max (real_of_int (frame - a_startDelay a) / real_of_int (a_duration a)) 0) 1
                          * (toPx (n_x nt) (width cv) - toPx (n_x nf) (width cv)),
                      toPx (n_y nf) (height cv)
                        + min (max (real_of_int (frame - a_startDelay a) / real_of_int (a_duration a)) 0) 1
                          * (toPx (n_y nt) (height cv) - toPx (n_y nf) (height cv)))"
      and "position (packetB lib cv ns frame a) = position (actionA lib cv ns frame a)"
      using gen [of frame] by simp_all
  next
    assume ex: "a_startDelay a = 30 \<and> a_duration a = 40 \<and>
          n_x nf = 50 \<and> n_y nf = 15 \<and> n_x nt = 50 \<and> n_y nt = 50"
    have g30: "position (actionA lib cv ns 30 a) = Some (toPx 50 (width cv), toPx 15 (height cv))"
      using gen [of 30] ex by simp
    have g70: "position (actionA lib cv ns 70 a) = Some (toPx 50 (width cv), toPx 50 (height cv))"
      using gen [of 70] ex by simp
    have g50: "position (actionA lib cv ns 50 a) = Some (toPx 50 (width cv), toPx 32.5 (height cv))"
      using gen [of 50] ex by (simp add: toPx_def field_simps)
    show "position (actionA lib cv ns 30 a) = Some (toPx 50 (width cv), toPx 15 (height cv))"
      by (rule g30)
    show "position (actionA lib cv ns 70 a) = Some (toPx 50 (width cv), toPx 50 (height cv))"
      by (rule g70)
    show "position (actionA lib cv ns 50 a) = Some (toPx 50 (width cv), toPx 32.5 (height cv))"
      by (rule g50)
    show "position (packetB lib cv ns 30 a) = Some (toPx 50 (width cv), toPx 15 (height cv))"
      using gen [of 30] ex g30 by simp
    show "position (packetB lib cv ns 70 a) = Some (toPx 50 (width cv), toPx 50 (height cv))"
      using gen [of 70] ex g70 by simp
    show "position (packetB lib cv ns 50 a) = Some (toPx 50 (width cv), toPx 32.5 (height cv))"
      using gen [of 50] ex g50 by simp
  qed
qed

theorem packet_position_witness:
  "position (actionA step_lib percent_canvas demo_nodes 30 setnx_packet) = Some (50, 15) \<and>
   position (actionA step_lib percent_canvas demo_nodes 70 setnx_packet) = Some (50, 50) \<and>
   position (actionA step_lib percent_canvas demo_nodes 50 setnx_packet) = Some (50, 32.5) \<and>
   position (packetB step_lib percent_canvas demo_nodes 30 setnx_packet) = Some (50, 15) \<and>
   position (packetB step_lib percent_canvas demo_nodes 70 setnx_packet) = Some (50, 50) \<and>
   position (packetB step_lib percent_canvas demo_nodes 50 setnx_packet) = Some (50, 32.5) \<and>
   position (packetB step_lib percent_canvas demo_nodes 40 setnx_packet) = Some (50, 23.75)"
proof -
  have h: "a_type setnx_packet = Packet" "a_fromId setnx_packet = Some ''client''"
    "''client'' \<noteq> []" "a_toId setnx_packet = Some ''redis''" "''redis'' \<noteq> []"
    "find_node demo_nodes ''client'' = Some client_node"
    "find_node demo_nodes ''redis'' = Some redis_node"
    by (simp_all add: setnx_packet_def find_node_def demo_nodes_def client_node_def redis_node_def)
  note th = packet_position [OF step_lib_linear h]
  have ex: "a_startDelay setnx_packet = 30 \<and> a_duration setnx_packet = 40 \<and>
          n_x client_node = 50 \<and> n_y client_node = 15 \<and> n_x redis_node = 50 \<and> n_y redis_node = 50"
    by (simp add: setnx_packet_def client_node_def redis_node_def)
  have w: "0 < a_duration setnx_packet \<and> a_startDelay setnx_packet \<le> 40 \<and>
           40 \<le> a_startDelay setnx_packet + a_duration setnx_packet"
    by (simp add: setnx_packet_def)
  have px: "toPx v (width percent_canvas) = v" "toPx v (height percent_canvas) = v" for v
    by (simp_all add: toPx_def percent_canvas_def)
  from th [of 40 percent_canvas, THEN conjunct1, rule_format, OF w]
  have g40: "position (packetB step_lib percent_canvas demo_nodes 40 setnx_packet) = Some (50, 23.75)"
    by (simp add: px setnx_packet_def client_node_def redis_node_def)
  from th [of 40 percent_canvas, THEN conjunct2, rule_format, OF ex] g40
  show ?thesis by (simp add: px)
qed

section \<open>Highlights\<close>



section \<open>References to nodes that do not exist\<close>

text \<open>
  C6. An edge or an action whose node reference does not resolve to a node of the
  diagram produces no rendered entry, at every frame and in both versions of the
  renderer: an edge with an unknown \<open>fromId\<close> or \<open>toId\<close> yields no edge entry (in the
  callback and in the render of the whole scene), a packet with an unknown endpoint and
  a label with an unknown target yield no effect, and a highlight or pulse with an
  unknown target yields no effect and leaves every node's render as it is without the
  action. The renderers are total functions: no branch of them raises.
\<close>

theorem missing_reference_tolerated:
  "(\<not> resolves ns (Some (e_fromId e)) \<or> \<not> resolves ns (Some (e_toId e)) \<longrightarrow>
      edgeA lib data cv ns frame i e = None \<and> edgeB lib data cv ns frame i e = None) \<and>
   (diagramConfig data = Some cfg \<and> i < length (or_empty (edges cfg)) \<and>
    (\<not> resolves (or_empty (nodes cfg)) (Some (e_fromId (or_empty (edges cfg) ! i))) \<or>
     \<not> resolves (or_empty (nodes cfg)) (Some (e_toId (or_empty (edges cfg) ! i)))) \<longrightarrow>
      rendered_edges (TechSceneA lib cv frame data) ! i = None \<and>
      rendered_edges (TechSceneB lib cv frame data) ! i = None) \<and>
   (a_type a = Packet \<and> (\<not> resolves ns (a_fromId a) \<or> \<not> resolves ns (a_toId a)) \<longrightarrow>
      actionA lib cv ns frame a = None \<and> packetB lib cv ns frame a = None \<and>
      labelB lib cv ns frame a = None) \<and>
   (a_type a = Show_label \<and> \<not> resolves ns (a_targetId a) \<longrightarrow>
      actionA lib cv ns frame a = None \<and> packetB lib cv ns frame a = None \<and>
      labelB lib cv ns frame a = None) \<and>
   ((a_type a = Highlight \<or> a_type a = Pulse) \<and> \<not> resolves ns (a_targetId a) \<longrightarrow>
      actionA lib cv ns frame a = None \<and> packetB lib cv ns frame a = None \<and>
      labelB lib cv ns frame a = None \<and>
      (\<forall>n\<in>set ns. nodeA lib data cv (acts @ a # acts') frame i n
                      = nodeA lib data cv (acts @ acts') frame i n \<and>
                    nodeB lib cv (acts @ a # acts') frame i n
                      = nodeB lib cv (acts @ acts') frame i n))"
proof (intro conjI impI)
  assume "\<not> resolves ns (Some (e_fromId e)) \<or> \<not> resolves ns (Some (e_toId e))"
  then have "find_node ns (e_fromId e) = None \<or> find_node ns (e_toId e) = None"
    by (auto simp: resolves_def find_node_None_iff)
  then show "edgeA lib data cv ns frame i e = None" and "edgeB lib data cv ns frame i e = None"
    by (auto simp: edgeA_def edgeB_def split: option.splits)
next
  assume h: "diagramConfig data = Some cfg \<and> i < length (or_empty (edges cfg)) \<and>
    (\<not> resolves (or_empty (nodes cfg)) (Some (e_fromId (or_empty (edges cfg) ! i))) \<or>
     \<not> resolves (or_empty (nodes cfg)) (Some (e_toId (or_empty (edges cfg) ! i))))"
  then have "find_node (or_empty (nodes cfg)) (e_fromId (or_empty (edges cfg) ! i)) = None \<or>
             find_node (or_empty (nodes cfg)) (e_toId (or_empty (edges cfg) ! i)) = None"
    by (auto simp: resolves_def find_node_None_iff)
  then have "edgeA lib data cv (or_empty (nodes cfg)) frame i (or_empty (edges cfg) ! i) = None"
    and "edgeB lib data cv (or_empty (nodes cfg)) frame i (or_empty (edges cfg) ! i) = None"
    by (auto simp: edgeA_def edgeB_def split: option.splits)
  moreover from h have "diagramConfig data = Some cfg" and "i < length (or_empty (edges cfg))"
    by simp_all
  ultimately show "rendered_edges (TechSceneA lib cv frame data) ! i = None"
    and "rendered_edges (TechSceneB lib cv frame data) ! i = None"
    by (simp_all add: rendered_edges_def TechSceneA_def TechSceneB_def Let_def nth_enumerate_eq)
next
  assume h: "a_type a = Packet \<and> (\<not> resolves ns (a_fromId a) \<or> \<not> resolves ns (a_toId a))"
  then have "\<not> truthy (a_fromId a) \<or> find_node ns (the (a_fromId a)) = None \<or>
             \<not> truthy (a_toId a) \<or> find_node ns (the (a_toId a)) = None"
    using unresolved_cases [of ns "a_fromId a"] unresolved_cases [of ns "a_toId a"] by auto
  with h show "actionA lib cv ns frame a = None" and "packetB lib cv ns frame a = None"
    and "labelB lib cv ns frame a = None"
    by (auto simp: actionA_def packetB_def labelB_def split: option.splits)
next
  assume h: "a_type a = Show_label \<and> \<not> resolves ns (a_targetId a)"
  then have "\<not> truthy (a_targetId a) \<or> find_node ns (the (a_targetId a)) = None"
    using unresolved_cases [of ns "a_targetId a"] by auto
  with h show "actionA lib cv ns frame a = None" and "packetB lib cv ns frame a = None"
    and "labelB lib cv ns frame a = None"
    by (auto simp: actionA_def packetB_def labelB_def split: option.splits)
next
  assume h: "(a_type a = Highlight \<or> a_type a = Pulse) \<and> \<not> resolves ns (a_targetId a)"
  then show "actionA lib cv ns frame a = None" and "packetB lib cv ns frame a = None"
    and "labelB lib cv ns frame a = None"
    by (auto simp: actionA_def packetB_def labelB_def)
  show "\<forall>n\<in>set ns. nodeA lib data cv (acts @ a # acts') frame i n
                      = nodeA lib data cv (acts @ acts') frame i n \<and>
                    nodeB lib cv (acts @ a # acts') frame i n
                      = nodeB lib cv (acts @ acts') frame i n"
  proof
    fix n assume n: "n \<in> set ns"
    with h have ne: "a_targetId a \<noteq> Some (n_id n)"
      by (auto simp: resolves_def)
    have "activeHighlight (acts @ a # acts') n frame = activeHighlight (acts @ acts') n frame"
      unfolding activeHighlight_def using ne by (intro find_drop_unmatched) simp
    moreover have "activeAction (acts @ a # acts') n frame = activeAction (acts @ acts') n frame"
      unfolding activeAction_def using ne by (intro find_drop_unmatched) simp
    ultimately show "nodeA lib data cv (acts @ a # acts') frame i n
                      = nodeA lib data cv (acts @ acts') frame i n \<and>
                    nodeB lib cv (acts @ a # acts') frame i n
                      = nodeB lib cv (acts @ acts') frame i n"
      by (simp add: nodeA_def nodeB_def)
  qed
qed

theorem missing_reference_tolerated_witness:
  "edgeA step_lib (diagram_scene (Some stray_config)) demo_canvas demo_nodes 50 1 stray_edge = None \<and>
   edgeB step_lib (diagram_scene (Some stray_config)) demo_canvas demo_nodes 50 1 stray_edge = None \<and>
   rendered_edges (TechSceneA step_lib demo_canvas 50 (diagram_scene (Some stray_config))) ! 1 = None \<and>
   rendered_edges (TechSceneB step_lib demo_canvas 50 (diagram_scene (Some stray_config))) ! 1 = None \<and>
   actionA step_lib demo_canvas demo_nodes 50 stray_packet = None \<and>
   packetB step_lib demo_canvas demo_nodes 50 stray_packet = None \<and>
   actionA step_lib demo_canvas demo_nodes 80 stray_label = None \<and>
   labelB step_lib demo_canvas demo_nodes 80 stray_label = None \<and>
   actionA step_lib demo_canvas demo_nodes 75 stray_highlight = None \<and>
   nodeB step_lib demo_canvas [redis_pulse, stray_highlight] 75 1 redis_node
     = nodeB step_lib demo_canvas [redis_pulse] 75 1 redis_node"
proof -
  let ?d = "diagram_scene (Some stray_config)"
  have e: "\<not> resolves demo_nodes (Some (e_fromId stray_edge)) \<or>
           \<not> resolves demo_nodes (Some (e_toId stray_edge))"
    by (simp add: resolves_def demo_nodes_def stray_edge_def client_node_def redis_node_def)
  have c: "diagramConfig ?d = Some stray_config \<and> 1 < length (or_empty (edges stray_config)) \<and>
    (\<not> resolves (or_empty (nodes stray_config)) (Some (e_fromId (or_empty (edges stray_config) ! 1))) \<or>
     \<not> resolves (or_empty (nodes stray_config)) (Some (e_toId (or_empty (edges stray_config) ! 1))))"
    by (simp add: diagram_scene_def stray_config_def or_empty_def resolves_def demo_nodes_def
          stray_edge_def client_node_def redis_node_def)
  have p: "a_type stray_packet = Packet \<and>
           (\<not> resolves demo_nodes (a_fromId stray_packet) \<or> \<not> resolves demo_nodes (a_toId stray_packet))"
    by (simp add: stray_packet_def setnx_packet_def resolves_def demo_nodes_def
          client_node_def redis_node_def)
  have l: "a_type stray_label = Show_label \<and> \<not> resolves demo_nodes (a_targetId stray_label)"
    by (simp add: stray_label_def locked_label_def resolves_def demo_nodes_def
          client_node_def redis_node_def)
  have h: "(a_type stray_highlight = Highlight \<or> a_type stray_highlight = Pulse) \<and>
           \<not> resolves demo_nodes (a_targetId stray_highlight)"
    by (simp add: stray_highlight_def redis_highlight_def resolves_def demo_nodes_def
          client_node_def redis_node_def)
  have r: "redis_node \<in> set demo_nodes" by (simp add: demo_nodes_def)
  note t1 = missing_reference_tolerated
              [of demo_nodes stray_edge step_lib ?d demo_canvas 50 1 stray_config stray_packet]
  note t2 = missing_reference_tolerated
              [of demo_nodes stray_edge step_lib ?d demo_canvas 80 1 stray_config stray_label]
  note t3 = missing_reference_tolerated
              [of demo_nodes stray_edge step_lib ?d demo_canvas 75 1 stray_config stray_highlight
                  "[redis_pulse]" "[]"]
  from t1 e have "edgeA step_lib ?d demo_canvas demo_nodes 50 1 stray_edge = None \<and>
                  edgeB step_lib ?d demo_canvas demo_nodes 50 1 stray_edge = None"
    by blast
  moreover from t1 c
  have "rendered_edges (TechSceneA step_lib demo_canvas 50 ?d) ! 1 = None \<and>
        rendered_edges (TechSceneB step_lib demo_canvas 50 ?d) ! 1 = None"
    by blast
  moreover from t1 p
  have "actionA step_lib demo_canvas demo_nodes 50 stray_packet = None \<and>
        packetB step_lib demo_canvas demo_nodes 50 stray_packet = None"
    by blast
  moreover from t2 l
  have "actionA step_lib demo_canvas demo_nodes 80 stray_label = None \<and>
        labelB step_lib demo_canvas demo_nodes 80 stray_label = None"
    by blast
  moreover from t3 h r
  have "actionA step_lib demo_canvas demo_nodes 75 stray_highlight = None \<and>
        nodeB step_lib demo_canvas ([redis_pulse] @ stray_highlight # []) 75 1 redis_node
          = nodeB step_lib demo_canvas ([redis_pulse] @ []) 75 1 redis_node"
    by blast
  ultimately show ?thesis by simp
qed

section \<open>Scenes without a diagram\<close>




section \<open>Frames outside the timeline\<close>

text \<open>
  The frames outside the timeline themselves are taken care of. For a video with at
  least one scene, positive durations and their sum as its length, the host's clamp makes
  a negative frame show the first scene at local frame 0, and a frame at or beyond the
  end show the last scene at its last local frame.
\<close>

lemma clamped_frame_shows_nearest_scene:
  assumes ne: "ss \<noteq> []" and pos: "\<forall>s\<in>set ss. 0 < durationInFrames s"
    and sc: "scenes vd = Some ss"
    and tot: "totalDuration vd = sum_list (map durationInFrames ss)"
  shows "(g < 0 \<longrightarrow>
            locate ss (clamp_frame (totalDuration vd) g) = [(0, 0)] \<and>
            render lib tech vd g
              = Some (collect [Scene lib tech
                                 \<lparr>width = vc_width vd, height = vc_height vd, fps = vc_fps vd\<rparr>
                                 0 (hd ss)])) \<and>
         (totalDuration vd \<le> g \<longrightarrow>
            locate ss (clamp_frame (totalDuration vd) g)
              = [(length ss - 1, durationInFrames (last ss) - 1)] \<and>
            render lib tech vd g
              = Some (collect [Scene lib tech
                                 \<lparr>width = vc_width vd, height = vc_height vd, fps = vc_fps vd\<rparr>
                                 (durationInFrames (last ss) - 1) (last ss)]))"
proof (intro conjI impI)
  have nn: "\<forall>s\<in>set ss. 0 \<le> durationInFrames s"
    using pos by (auto intro: less_imp_le)
  obtain s rest where ss: "ss = s # rest" using ne by (cases ss) auto
  obtain xs z where sn: "ss = xs @ [z]" using ne by (cases ss rule: rev_cases) auto
  have ps: "0 < durationInFrames s" and nr: "\<forall>s\<in>set rest. 0 \<le> durationInFrames s"
    using pos nn unfolding ss by simp_all
  have pz: "0 < durationInFrames z" and nx: "\<forall>s\<in>set xs. 0 \<le> durationInFrames s"
    using pos nn unfolding sn by simp_all
  have sx: "0 \<le> sum_list (map durationInFrames xs)"
    using nx by (intro sum_list_nonneg) auto
  have T: "totalDuration vd = sum_list (map durationInFrames xs) + durationInFrames z"
    using tot sn by simp
  have Tpos: "0 < totalDuration vd" using T sx pz by simp
  {
    assume g: "g < 0"
    then have c: "clamp_frame (totalDuration vd) g = 0"
      using Tpos by (simp add: clamp_frame_def)
    have v: "visible (sequences 0 0 ss) 0
               = [(\<lparr>seq_key = 0, seq_from = 0, seq_durationInFrames = durationInFrames s,
                    seq_child = s\<rparr>, 0)]"
      using ps visible_before [OF nr, of 0 "durationInFrames s" "Suc 0"]
      by (simp add: ss visible_Cons localFrame_def)
    show "locate ss (clamp_frame (totalDuration vd) g) = [(0, 0)]"
      by (simp add: c locate_def showing_visible v)
    show "render lib tech vd g
              = Some (collect [Scene lib tech
                                 \<lparr>width = vc_width vd, height = vc_height vd, fps = vc_fps vd\<rparr>
                                 0 (hd ss)])"
      using v by (simp add: render_def MainComposition_def sc c Let_def ss)
  }
  {
    assume g: "totalDuration vd \<le> g"
    then have c: "clamp_frame (totalDuration vd) g = totalDuration vd - 1"
      using Tpos by (simp add: clamp_frame_def)
    have b: "visible (sequences 0 0 xs) (totalDuration vd - 1) = []"
      using visible_after [OF nx, of 0 "totalDuration vd - 1" 0] T pz by simp
    have v: "visible (sequences 0 0 ss) (totalDuration vd - 1)
               = [(\<lparr>seq_key = length xs, seq_from = sum_list (map durationInFrames xs),
                    seq_durationInFrames = durationInFrames z, seq_child = z\<rparr>,
                   durationInFrames z - 1)]"
      using b T pz sx
      by (simp add: sn sequences_snoc visible_append visible_Cons visible_Nil localFrame_def)
    show "locate ss (clamp_frame (totalDuration vd) g)
              = [(length ss - 1, durationInFrames (last ss) - 1)]"
      by (simp add: c locate_def showing_visible v) (simp add: sn)
    show "render lib tech vd g
              = Some (collect [Scene lib tech
                                 \<lparr>width = vc_width vd, height = vc_height vd, fps = vc_fps vd\<rparr>
                                 (durationInFrames (last ss) - 1) (last ss)])"
      using v by (simp add: render_def MainComposition_def sc c Let_def) (simp add: sn)
  }
qed


section \<open>Emphasis on a node's scale\<close>

text \<open>
  C10, as the code has it. Let an action target a node and its window contain the frame.
  In the first version of the renderer a highlight multiplies the node's entrance scale
  by 1.2, and a pulse is not recognised: alone, it leaves the scale at the entrance
  scale. In the second version the emphasis is added, not multiplied: a highlight alone
  gives the entrance scale plus 0.15, a pulse alone the entrance scale plus 0.15 plus
  \<open>sin (0.5 * (localFrame - startDelay)) * 0.1\<close>, and among several actions the first
  one in list order that is an active highlight or pulse on the node decides in the
  same way, whatever follows it.
\<close>

theorem emphasis_scale:
  assumes tgt: "a_targetId a = Some (n_id node)"
    and win: "a_startDelay a \<le> frame" "frame < a_startDelay a + a_duration a"
  shows "(a_type a = Highlight \<and> a \<in> set acts \<longrightarrow>
            nr_scale (nodeA lib data cv acts frame i node) = entranceA lib cv frame i * 1.2) \<and>
         (a_type a = Pulse \<longrightarrow>
            nr_scale (nodeA lib data cv [a] frame i node) = entranceA lib cv frame i) \<and>
         (a_type a = Highlight \<longrightarrow>
            nr_scale (nodeB lib cv [a] frame i node) = entranceB lib cv frame i + 0.15) \<and>
         (a_type a = Pulse \<longrightarrow>
            nr_scale (nodeB lib cv [a] frame i node)
              = entranceB lib cv frame i + 0.15
                  + sin (real_of_int (frame - a_startDelay a) * 0.5) * 0.1) \<and>
         ((a_type a = Highlight \<or> a_type a = Pulse) \<and>
          (\<forall>c\<in>set pre. \<not> ((a_type c = Highlight \<or> a_type c = Pulse) \<and>
                             a_targetId c = Some (n_id node) \<and>
                             a_startDelay c \<le> frame \<and>
                             frame < a_startDelay c + a_duration c)) \<longrightarrow>
            nr_scale (nodeB lib cv (pre @ a # post) frame i node)
              = entranceB lib cv frame i + 0.15
                  + (if a_type a = Pulse
                     then sin (real_of_int (frame - a_startDelay a) * 0.5) * 0.1 else 0))"
proof (intro conjI impI)
  assume h: "a_type a = Highlight \<and> a \<in> set acts"
  then have "\<exists>x\<in>set acts. a_type x = Highlight \<and> a_targetId x = Some (n_id node) \<and>
                a_startDelay x \<le> frame \<and> frame < a_startDelay x + a_duration x"
    using tgt win by blast
  then have "activeHighlight acts node frame \<noteq> None"
    by (auto simp: activeHighlight_def find_None_iff)
  then show "nr_scale (nodeA lib data cv acts frame i node) = entranceA lib cv frame i * 1.2"
    by (simp add: nodeA_def Let_def)
next
  assume "a_type a = Pulse"
  then show "nr_scale (nodeA lib data cv [a] frame i node) = entranceA lib cv frame i"
    by (simp add: nodeA_def Let_def activeHighlight_def)
next
  assume "a_type a = Highlight"
  then show "nr_scale (nodeB lib cv [a] frame i node) = entranceB lib cv frame i + 0.15"
    using tgt win by (simp add: nodeB_def Let_def activeAction_def pulseScale_def)
next
  assume "a_type a = Pulse"
  then show "nr_scale (nodeB lib cv [a] frame i node)
              = entranceB lib cv frame i + 0.15
                  + sin (real_of_int (frame - a_startDelay a) * 0.5) * 0.1"
    using tgt win by (simp add: nodeB_def Let_def activeAction_def pulseScale_def)
next
  let ?P = "\<lambda>x. (a_type x = Highlight \<or> a_type x = Pulse) \<and> a_targetId x = Some (n_id node) \<and>
                a_startDelay x \<le> frame \<and> frame < a_startDelay x + a_duration x"
  assume h: "(a_type a = Highlight \<or> a_type a = Pulse) \<and> (\<forall>c\<in>set pre. \<not> ?P c)"
  then have Pa: "?P a" and none: "\<forall>c\<in>set pre. \<not> ?P c"
    using tgt win by simp_all
  have "find ?P (pre @ a # post) = Some a"
    using Pa none by (rule find_first)
  then have "activeAction (pre @ a # post) node frame = Some a"
    by (simp add: activeAction_def)
  then show "nr_scale (nodeB lib cv (pre @ a # post) frame i node)
              = entranceB lib cv frame i + 0.15
                  + (if a_type a = Pulse
                     then sin (real_of_int (frame - a_startDelay a) * 0.5) * 0.1 else 0)"
    by (simp add: nodeB_def Let_def pulseScale_def)
qed

theorem emphasis_scale_witness:
  "nr_scale (nodeA step_lib (diagram_scene None) demo_canvas
               [setnx_packet, redis_highlight] 75 1 redis_node) = 1.2 \<and>
   nr_scale (nodeA step_lib (diagram_scene None) demo_canvas [redis_pulse] 75 1 redis_node) = 1 \<and>
   nr_scale (nodeB step_lib demo_canvas [redis_highlight] 75 1 redis_node) = 1.15 \<and>
   nr_scale (nodeB step_lib demo_canvas [redis_pulse] 70 1 redis_node) = 1.15 \<and>
   nr_scale (nodeB step_lib demo_canvas [redis_pulse] 75 1 redis_node)
     = 1.15 + sin (5 / 2) / 10 \<and>
   nr_scale (nodeB step_lib demo_canvas [setnx_packet, redis_pulse, redis_highlight] 75 1 redis_node)
     = 1.15 + sin (5 / 2) / 10 \<and>
   nr_scale (nodeB step_lib demo_canvas [setnx_packet, redis_highlight, redis_pulse] 75 1 redis_node)
     = 1.15"
proof -
  have hl: "a_targetId redis_highlight = Some (n_id redis_node)"
    "a_startDelay redis_highlight \<le> 75"
    "75 < a_startDelay redis_highlight + a_duration redis_highlight"
    and hty: "a_type redis_highlight = Highlight"
    by (simp_all add: redis_highlight_def redis_node_def)
  have pl: "a_targetId redis_pulse = Some (n_id redis_node)"
    "a_startDelay redis_pulse \<le> 75"
    "75 < a_startDelay redis_pulse + a_duration redis_pulse"
    and pl0: "a_startDelay redis_pulse \<le> 70"
    "70 < a_startDelay redis_pulse + a_duration redis_pulse"
    and pty: "a_type redis_pulse = Pulse" and psd: "a_startDelay redis_pulse = 70"
    by (simp_all add: redis_pulse_def redis_node_def)
  have pre: "\<forall>c\<in>set [setnx_packet].
               \<not> ((a_type c = Highlight \<or> a_type c = Pulse) \<and>
                  a_targetId c = Some (n_id redis_node) \<and>
                  a_startDelay c \<le> 75 \<and> 75 < a_startDelay c + a_duration c)"
    by (simp add: setnx_packet_def)
  have eA: "entranceA step_lib demo_canvas 75 (Suc 0) = 1"
    and eB: "entranceB step_lib demo_canvas 75 (Suc 0) = 1"
    and eB0: "entranceB step_lib demo_canvas 70 (Suc 0) = 1"
    by (simp_all add: entranceA_def entranceB_def step_lib_def lerp_def)
  note th = emphasis_scale [OF hl, of "[setnx_packet, redis_highlight]" step_lib
              "diagram_scene None" demo_canvas 1 "[setnx_packet]" "[redis_pulse]"]
  note tp = emphasis_scale [OF pl, of "[redis_pulse]" step_lib
              "diagram_scene None" demo_canvas 1 "[setnx_packet]" "[redis_highlight]"]
  note tp0 = emphasis_scale [OF pl(1) pl0, of "[redis_pulse]" step_lib
              "diagram_scene None" demo_canvas 1 "[]" "[]"]
  have 1: "nr_scale (nodeA step_lib (diagram_scene None) demo_canvas
               [setnx_packet, redis_highlight] 75 1 redis_node) = 1.2"
    using th [THEN conjunct1] hty by (simp add: eA)
  have 2: "nr_scale (nodeA step_lib (diagram_scene None) demo_canvas [redis_pulse] 75 1 redis_node) = 1"
    using tp [THEN conjunct2, THEN conjunct1] pty by (simp add: eA)
  have 3: "nr_scale (nodeB step_lib demo_canvas [redis_highlight] 75 1 redis_node) = 1.15"
    using th [THEN conjunct2, THEN conjunct2, THEN conjunct1] hty by (simp add: eB)
  have 4: "nr_scale (nodeB step_lib demo_canvas [redis_pulse] 70 1 redis_node) = 1.15"
    using tp0 [THEN conjunct2, THEN conjunct2, THEN conjunct2, THEN conjunct1] pty
    by (simp add: eB0 psd)
  have 5: "nr_scale (nodeB step_lib demo_canvas [redis_pulse] 75 1 redis_node)
     = 1.15 + sin (5 / 2) / 10"
    using tp [THEN conjunct2, THEN conjunct2, THEN conjunct2, THEN conjunct1] pty
    by (simp add: eB psd)
  have 6: "nr_scale (nodeB step_lib demo_canvas ([setnx_packet] @ redis_pulse # [redis_highlight])
             75 1 redis_node) = 1.15 + sin (5 / 2) / 10"
    using tp [THEN conjunct2, THEN conjunct2, THEN conjunct2, THEN conjunct2] pty pre
    by (simp add: eB psd)
  have 7: "nr_scale (nodeB step_lib demo_canvas ([setnx_packet] @ redis_highlight # [redis_pulse])
             75 1 redis_node) = 1.15"
    using th [THEN conjunct2, THEN conjunct2, THEN conjunct2, THEN conjunct2] hty pre
    by (simp add: eB)
  from 1 2 3 4 5 6 7 show ?thesis by simp
qed

text \<open>
  No factor turns the entrance scale into the second version's scale: the third node is
  still at entrance scale 0 at frame 10 and is drawn at scale 0.15 under a highlight or a
  pulse that starts there. In the first version a pulse changes neither scale nor glow.
\<close>

theorem emphasis_is_additive:
  "entranceB step_lib demo_canvas 10 2 = 0 \<and>
   nr_scale (nodeB step_lib demo_canvas [intro_highlight] 10 2 redis_node) = 0.15 \<and>
   nr_scale (nodeB step_lib demo_canvas [intro_pulse] 10 2 redis_node) = 0.15 \<and>
   entranceA step_lib demo_canvas 75 1 = 1 \<and>
   nr_scale (nodeA step_lib (diagram_scene None) demo_canvas [redis_pulse] 75 1 redis_node) = 1 \<and>
   \<not> nr_glow (nodeA step_lib (diagram_scene None) demo_canvas [redis_pulse] 75 1 redis_node)"
  by (simp add: entranceB_def entranceA_def nodeB_def nodeA_def activeAction_def
        activeHighlight_def pulseScale_def intro_highlight_def intro_pulse_def
        redis_highlight_def redis_pulse_def redis_node_def step_lib_def lerp_def Let_def)

end
